theory Spec2Isabelle
  imports Main
begin

section \<open>Strings\<close>

text \<open>
  Strings are lists of characters. The case mapping \<open>toLowerCase\<close> belongs to the
  JavaScript engine and is a parameter of the model (see \<open>libs\<close> below).
\<close>

text \<open>\<open>s.split(c)\<close> for a one-character separator: never returns the empty array.\<close>

fun split :: "char \<Rightarrow> string \<Rightarrow> string list" where
  "split c [] = [[]]"
| "split c (x # xs) =
     (if x = c then [] # split c xs
      else (case split c xs of [] \<Rightarrow> [[x]] | p # ps \<Rightarrow> (x # p) # ps))"

text \<open>The decimal rendering of a number inside a template literal.\<close>

definition digit_char :: "nat \<Rightarrow> char" where
  "digit_char d = char_of (48 + d)"

function String_of_nat :: "nat \<Rightarrow> string" where
  "String_of_nat n =
     (if n < 10 then [digit_char n] else String_of_nat (n div 10) @ [digit_char (n mod 10)])"
  by pat_completeness auto
termination
  by (relation "measure (\<lambda>n. n)") auto

declare String_of_nat.simps [simp del]

section \<open>The persistent store\<close>

text \<open>
  The two tables the import touches, as the models declare them: \<open>users\<close>
  (id, email, password_hash, name, role) and \<open>students\<close> (id, user_id, student_code,
  phone). Primary keys are UUIDs in the source; here they are natural numbers.
\<close>

record user =
  u_id :: nat
  u_email :: string
  u_password_hash :: string
  u_name :: string
  u_role :: string

record student =
  s_id :: nat
  s_user_id :: nat
  s_student_code :: string
  s_phone :: "string option"

record database =
  users :: "user list"
  students :: "student list"

text \<open>
  The exceptions of the import: the allocator's own error; a validation error of a
  model (field, validator); a statement rejected by the database (the constraint);
  an include that names no declared association (source model, target model, alias
  asked for, aliases declared); a rollback of a transaction that is already finished;
  a strategy that is none of the three.
\<close>

datatype error =
    AllocationExhausted string
  | ValidationError string string
  | DatabaseError string
  | EagerLoadingError string string string "string list"
  | TransactionFinished
  | InvalidStrategy string

text \<open>\<open>User.findOne({ where: { email } })\<close>: string equality of the column, exact.\<close>

definition User_findOne :: "database \<Rightarrow> string \<Rightarrow> user option" where
  "User_findOne db e = find (\<lambda>u. u_email u = e) (users db)"

section \<open>Suffix allocation\<close>

definition generateEmailWithSuffix :: "string \<Rightarrow> nat \<Rightarrow> string" where
  "generateEmailWithSuffix e suffix =
     (let parts = split CHR ''@'' e;
          localPart = (case parts of [] \<Rightarrow> ''undefined'' | p # _ \<Rightarrow> p);
          domain = (case parts of _ # d # _ \<Rightarrow> d | _ \<Rightarrow> ''undefined'')
      in localPart @ ''_'' @ String_of_nat suffix @ ''@'' @ domain)"

text \<open>
  The loop of \<open>findAvailableEmail\<close>, with its two variables \<open>suffix\<close> and \<open>email\<close>.
  Besides the outcome it returns the addresses it looked up, one per \<open>User.findOne\<close>
  call, in order.
\<close>

function findAvailableEmail_loop ::
  "database \<Rightarrow> string \<Rightarrow> nat \<Rightarrow> string \<Rightarrow> (error + string) \<times> string list" where
  "findAvailableEmail_loop db originalEmail suffix e =
     (case User_findOne db e of
        None \<Rightarrow> (Inr e, [e])
      | Some existing \<Rightarrow>
          (if suffix + 1 > 1000 then (Inl (AllocationExhausted originalEmail), [e])
           else (case findAvailableEmail_loop db originalEmail (suffix + 1)
                        (generateEmailWithSuffix originalEmail (suffix + 1)) of
                   (r, probes) \<Rightarrow> (r, e # probes))))"
  by pat_completeness auto
termination
  by (relation "measure (\<lambda>(db, originalEmail, suffix, e). 1001 - suffix)") auto

declare findAvailableEmail_loop.simps [simp del]

definition findAvailableEmail_probes :: "database \<Rightarrow> string \<Rightarrow> (error + string) \<times> string list" where
  "findAvailableEmail_probes db originalEmail =
     findAvailableEmail_loop db originalEmail 1 (generateEmailWithSuffix originalEmail 1)"

definition findAvailableEmail :: "database \<Rightarrow> string \<Rightarrow> error + string" where
  "findAvailableEmail db originalEmail = fst (findAvailableEmail_probes db originalEmail)"

section \<open>Rows, libraries and transactions\<close>

text \<open>
  A parsed CSV row. \<open>phone\<close> and \<open>password\<close> are optional columns; \<open>None\<close>
  is an absent (or null) field.
\<close>

record csv_record =
  r_name :: string
  r_email :: string
  r_student_code :: string
  r_phone :: "string option"
  r_password :: "string option"
  r_rowNumber :: nat

text \<open>
  Three library functions are parameters of the model: \<open>bcrypt.hash(password, rounds)\<close>,
  the \<open>isEmail\<close> validator of the \<open>User\<close> model, and \<open>String.prototype.toLowerCase\<close>.
\<close>

record libs =
  bcrypt_hash :: "string \<Rightarrow> nat \<Rightarrow> string"
  isEmail :: "string \<Rightarrow> bool"
  toLowerCase :: "string \<Rightarrow> string"

text \<open>The \<open>notEmpty\<close> validator: the string is not made of white space only.\<close>

definition is_space :: "char \<Rightarrow> bool" where
  "is_space c = ((of_char c :: nat) \<in> set [32, 9, 10, 11, 12, 13, 160])"

definition notEmpty :: "string \<Rightarrow> bool" where
  "notEmpty s = list_ex (\<lambda>c. \<not> is_space c) s"

text \<open>
  A transaction works on its own copy of the store. A statement that the database
  rejects (a constraint violation) aborts the transaction, and committing an aborted
  transaction writes nothing; a validation error is raised by the model before any
  statement is sent and leaves the transaction as it is. In this import a rollback is
  only ever asked of a transaction that has been committed, which raises
  \<open>TransactionFinished\<close> and changes nothing.
\<close>

record transaction =
  t_db :: database
  t_aborted :: bool

definition sequelize_transaction :: "database \<Rightarrow> transaction" where
  "sequelize_transaction db = \<lparr>t_db = db, t_aborted = False\<rparr>"

definition commit :: "database \<Rightarrow> transaction \<Rightarrow> database" where
  "commit db t = (if t_aborted t then db else t_db t)"

definition fresh_id :: "nat list \<Rightarrow> nat" where
  "fresh_id ids = Suc (fold max ids 0)"

text \<open>
  \<open>User.create\<close>: the validators of the model (\<open>isEmail\<close>, \<open>notEmpty\<close> on the name,
  \<open>isIn\<close> on the role), then the insert, which the unique index on \<open>email\<close> may reject.
  The length limits of the columns are left out of the model.
\<close>

definition User_create ::
  "libs \<Rightarrow> string \<Rightarrow> string \<Rightarrow> string \<Rightarrow> string \<Rightarrow> transaction \<Rightarrow> (error + user) \<times> transaction" where
  "User_create L e nm pw_hash role t =
     (if \<not> isEmail L e then (Inl (ValidationError ''email'' ''isEmail''), t)
      else if \<not> notEmpty nm then (Inl (ValidationError ''name'' ''notEmpty''), t)
      else if role \<notin> set [''instructor'', ''student''] then (Inl (ValidationError ''role'' ''isIn''), t)
      else if e \<in> set (map u_email (users (t_db t)))
        then (Inl (DatabaseError ''users_email_key''), t\<lparr>t_aborted := True\<rparr>)
      else
        (let u = \<lparr>u_id = fresh_id (map u_id (users (t_db t))), u_email = e,
                  u_password_hash = pw_hash, u_name = nm, u_role = role\<rparr>
         in (Inr u, t\<lparr>t_db := (t_db t)\<lparr>users := users (t_db t) @ [u]\<rparr>\<rparr>)))"

text \<open>
  \<open>Student.create\<close>: \<open>notEmpty\<close> on the code, then the insert, with the unique
  indexes on \<open>student_code\<close> and \<open>user_id\<close> and the foreign key to \<open>users\<close>.
\<close>

definition Student_create ::
  "nat \<Rightarrow> string \<Rightarrow> string option \<Rightarrow> transaction \<Rightarrow> (error + student) \<times> transaction" where
  "Student_create uid code ph t =
     (if \<not> notEmpty code then (Inl (ValidationError ''student_code'' ''notEmpty''), t)
      else if code \<in> set (map s_student_code (students (t_db t)))
        then (Inl (DatabaseError ''students_student_code_key''), t\<lparr>t_aborted := True\<rparr>)
      else if uid \<in> set (map s_user_id (students (t_db t)))
        then (Inl (DatabaseError ''students_user_id_key''), t\<lparr>t_aborted := True\<rparr>)
      else if uid \<notin> set (map u_id (users (t_db t)))
        then (Inl (DatabaseError ''students_user_id_fkey''), t\<lparr>t_aborted := True\<rparr>)
      else
        (let s = \<lparr>s_id = fresh_id (map s_id (students (t_db t))), s_user_id = uid,
                  s_student_code = code, s_phone = ph\<rparr>
         in (Inr s, t\<lparr>t_db := (t_db t)\<lparr>students := students (t_db t) @ [s]\<rparr>\<rparr>)))"

text \<open>\<open>user.update({ name })\<close>: validates the name, then updates the row with the user's id.\<close>

definition user_update :: "user \<Rightarrow> string \<Rightarrow> transaction \<Rightarrow> (error + user) \<times> transaction" where
  "user_update u nm t =
     (if \<not> notEmpty nm then (Inl (ValidationError ''name'' ''notEmpty''), t)
      else (Inr (u\<lparr>u_name := nm\<rparr>),
            t\<lparr>t_db := (t_db t)\<lparr>users :=
                 map (\<lambda>x. if u_id x = u_id u then x\<lparr>u_name := nm\<rparr> else x) (users (t_db t))\<rparr>\<rparr>))"

definition student_update :: "student \<Rightarrow> string option \<Rightarrow> transaction \<Rightarrow> student \<times> transaction" where
  "student_update s ph t =
     (s\<lparr>s_phone := ph\<rparr>,
      t\<lparr>t_db := (t_db t)\<lparr>students :=
           map (\<lambda>x. if s_id x = s_id s then x\<lparr>s_phone := ph\<rparr> else x) (students (t_db t))\<rparr>\<rparr>)"

definition user_destroy :: "user \<Rightarrow> transaction \<Rightarrow> transaction" where
  "user_destroy u t =
     t\<lparr>t_db := (t_db t)\<lparr>users := filter (\<lambda>x. u_id x \<noteq> u_id u) (users (t_db t))\<rparr>\<rparr>"

section \<open>Duplicates against the store\<close>

record dup_entry =
  e_user :: user
  e_student :: "student option"

record duplicateInfo =
  emailMap :: "string \<rightharpoonup> dup_entry"
  studentCodeMap :: "string \<rightharpoonup> dup_entry"

text \<open>
  The associations that \<open>models/index.js\<close> declares for the two models, each as the
  target model and the alias (\<open>as\<close>) it is declared under.
\<close>

definition User_associations :: "(string \<times> string) list" where
  "User_associations =
     [(''Student'', ''studentProfile''), (''Course'', ''courses''), (''Question'', ''questions''),
      (''ForumThread'', ''forumThreads''), (''ForumReply'', ''forumReplies''),
      (''ChatMessage'', ''sentMessages''), (''Notification'', ''notifications'')]"

definition Student_associations :: "(string \<times> string) list" where
  "Student_associations =
     [(''User'', ''user''), (''Course'', ''enrolledCourses''), (''Group'', ''groups''),
      (''AssignmentSubmission'', ''submissions''), (''QuizAttempt'', ''quizAttempts'')]"

text \<open>
  An \<open>include\<close> with a model and an alias is accepted when the source model declares
  an association to that model under that alias; otherwise the query raises
  \<open>EagerLoadingError\<close> before any statement is sent.
\<close>

definition include_error ::
  "string \<Rightarrow> (string \<times> string) list \<Rightarrow> string \<Rightarrow> string \<Rightarrow> error option" where
  "include_error source assocs target alias =
     (if (target, alias) \<in> set assocs then None
      else Some (EagerLoadingError source target alias
                   (map snd (filter (\<lambda>a. fst a = target) assocs))))"

text \<open>
  \<open>detectDatabaseDuplicates\<close>. The first query asks for the users whose email is one
  of the rows' lower-cased emails and includes \<open>Student\<close> under the alias \<open>student\<close>;
  the second asks for the students whose code is one of the rows' codes and includes
  \<open>User\<close> under the alias \<open>user\<close> (an inner join). An exception of either query is
  the outcome \<open>Inl\<close>. Otherwise the email map is keyed by the lower-cased stored
  email, the code map by the stored code; both queries compare strings exactly, as the
  columns do.
\<close>

definition detectDatabaseDuplicates ::
  "libs \<Rightarrow> database \<Rightarrow> csv_record list \<Rightarrow> error + duplicateInfo" where
  "detectDatabaseDuplicates L db records =
     (let emails = map (\<lambda>r. toLowerCase L (r_email r)) records;
          studentCodes = map r_student_code records
      in case include_error ''User'' User_associations ''Student'' ''student'' of
           Some err \<Rightarrow> Inl err
         | None \<Rightarrow>
             (let existingUsers = filter (\<lambda>u. u_email u \<in> set emails) (users db) in
              case include_error ''Student'' Student_associations ''User'' ''user'' of
                Some err \<Rightarrow> Inl err
              | None \<Rightarrow>
                  (let existingStudents =
                         filter (\<lambda>s. s_student_code s \<in> set studentCodes \<and>
                                      find (\<lambda>u. u_id u = s_user_id s) (users db) \<noteq> None)
                           (students db)
                   in Inr \<lparr>emailMap =
                          fold (\<lambda>u m. m(toLowerCase L (u_email u) \<mapsto>
                                  \<lparr>e_user = u,
                                   e_student = find (\<lambda>s. s_user_id s = u_id u) (students db)\<rparr>))
                            existingUsers Map.empty,
                        studentCodeMap =
                          fold (\<lambda>s m. case find (\<lambda>u. u_id u = s_user_id s) (users db) of
                                        None \<Rightarrow> m
                                      | Some u \<Rightarrow>
                                          m(s_student_code s \<mapsto> \<lparr>e_user = u, e_student = Some s\<rparr>))
                            existingStudents Map.empty\<rparr>)))"

section \<open>Processing one row\<close>

text \<open>
  The snapshot of the row in a result: \<open>None\<close> is a field that is absent or null.
\<close>

record out_record =
  o_email :: string
  o_original_email :: "string option"
  o_name :: "string option"
  o_student_code :: string
  o_phone :: "string option"

record result =
  status :: string
  outrec :: out_record
  message :: string

text \<open>
  \<open>error.message\<close>. The connection is configured with \<open>retry: { max: 3 }\<close>: a
  statement that the database rejects is sent again inside the aborted transaction,
  and the exception that reaches the caller is the one of the last attempt.
\<close>

definition error_message :: "error \<Rightarrow> string" where
  "error_message err =
     (case err of
        AllocationExhausted e \<Rightarrow> ''Could not find available email for '' @ e
      | ValidationError field v \<Rightarrow> ''Validation error: Validation '' @ v @ '' on '' @ field @ '' failed''
      | DatabaseError c \<Rightarrow>
          ''current transaction is aborted, commands ignored until end of transaction block''
      | EagerLoadingError source target alias declared \<Rightarrow>
          (if declared = [] then target @ '' is not associated to '' @ source @ ''!''
           else target @ '' is associated to '' @ source @
                '' using an alias. You've included an alias ('' @ alias @
                ''), but it does not match the alias(es) defined in your association ('' @
                concat (map (\<lambda>a. a @ '', '') (butlast declared)) @ last declared @ '').'')
      | TransactionFinished \<Rightarrow>
          ''Transaction cannot be rolled back because it has been finished with state: commit''
      | InvalidStrategy s \<Rightarrow>
          ''Invalid strategy: '' @ s @ ''. Must be one of: skip, update, suffix'')"

definition brief :: "csv_record \<Rightarrow> out_record" where
  "brief r = \<lparr>o_email = r_email r, o_original_email = None, o_name = None,
              o_student_code = r_student_code r, o_phone = None\<rparr>"

definition error_result :: "csv_record \<Rightarrow> string \<Rightarrow> result" where
  "error_result r msg = \<lparr>status = ''error'', outrec = brief r, message = msg\<rparr>"

definition skipped_result :: "csv_record \<Rightarrow> string \<Rightarrow> result" where
  "skipped_result r msg = \<lparr>status = ''skipped'', outrec = brief r, message = msg\<rparr>"

text \<open>\<open>a || b\<close> on an optional string: the empty string is falsy.\<close>

definition or_else :: "string option \<Rightarrow> 'a \<Rightarrow> (string \<Rightarrow> 'a) \<Rightarrow> 'a" where
  "or_else a b f = (case a of None \<Rightarrow> b | Some s \<Rightarrow> if s = [] then b else f s)"

definition SKIP :: string where "SKIP = ''skip''"
definition UPDATE :: string where "UPDATE = ''update''"
definition SUFFIX :: string where "SUFFIX = ''suffix''"

definition DUPLICATE_STRATEGIES :: "string list" where
  "DUPLICATE_STRATEGIES = [SKIP, UPDATE, SUFFIX]"

definition BATCH_SIZE :: nat where
  "BATCH_SIZE = 100"

text \<open>
  \<open>processRecord\<close>. \<open>db\<close> is the committed store, which \<open>findAvailableEmail\<close> reads
  (its query is not part of the transaction); the writes go to the transaction \<open>t\<close>.
  Every exception raised inside is caught and turned into a result with status
  \<open>error\<close>. The outcome \<open>None\<close> is the function falling off its end.
\<close>

definition processRecord ::
  "libs \<Rightarrow> database \<Rightarrow> csv_record \<Rightarrow> duplicateInfo \<Rightarrow> string \<Rightarrow> transaction
     \<Rightarrow> result option \<times> transaction" where
  "processRecord L db r di strategy t =
     (let email = toLowerCase L (r_email r);
          studentCode = r_student_code r;
          existingByEmail = emailMap di email;
          existingByCode = studentCodeMap di studentCode;
          isDuplicateEmail = (existingByEmail \<noteq> None);
          isDuplicateCode = (existingByCode \<noteq> None)
      in
      if \<not> isDuplicateEmail \<and> \<not> isDuplicateCode then
        (let password = or_else (r_password r) ''student123'' (\<lambda>p. p);
             password_hash = bcrypt_hash L password 10
         in case User_create L (r_email r) (r_name r) password_hash ''student'' t of
              (Inl err, t1) \<Rightarrow> (Some (error_result r (error_message err)), t1)
            | (Inr u, t1) \<Rightarrow>
                (case Student_create (u_id u) (r_student_code r) (or_else (r_phone r) None Some) t1 of
                   (Inl err, t2) \<Rightarrow> (Some (error_result r (error_message err)), t2)
                 | (Inr s, t2) \<Rightarrow>
                     (Some \<lparr>status = ''created'',
                            outrec = \<lparr>o_email = u_email u, o_original_email = None,
                                      o_name = Some (u_name u),
                                      o_student_code = s_student_code s, o_phone = s_phone s\<rparr>,
                            message = ''Student created successfully''\<rparr>, t2)))
      else if isDuplicateEmail \<or> isDuplicateCode then
        (if strategy = SKIP then
           (Some (skipped_result r
              (if isDuplicateEmail then ''Email already exists'' else ''Student code already exists'')), t)
         else if strategy = UPDATE then
           (case existingByEmail of
              None \<Rightarrow> (Some (skipped_result r ''Email and student code mismatch - cannot update''), t)
            | Some ex \<Rightarrow>
                (case e_student ex of
                   None \<Rightarrow> (Some (skipped_result r ''Email and student code mismatch - cannot update''), t)
                 | Some st \<Rightarrow>
                     (case user_update (e_user ex) (r_name r) t of
                        (Inl err, t1) \<Rightarrow> (Some (error_result r (error_message err)), t1)
                      | (Inr u, t1) \<Rightarrow>
                          (case student_update st (or_else (r_phone r) (s_phone st) Some) t1 of
                             (s, t2) \<Rightarrow>
                               (Some \<lparr>status = ''updated'',
                                      outrec = \<lparr>o_email = u_email u, o_original_email = None,
                                                o_name = Some (u_name u),
                                                o_student_code = s_student_code s,
                                                o_phone = s_phone s\<rparr>,
                                      message = ''Student updated successfully''\<rparr>, t2)))))
         else if strategy = SUFFIX then
           (if isDuplicateEmail then
              (case findAvailableEmail db (r_email r) of
                 Inl err \<Rightarrow> (Some (error_result r (error_message err)), t)
               | Inr newEmail \<Rightarrow>
                   (let password = or_else (r_password r) ''student123'' (\<lambda>p. p);
                        password_hash = bcrypt_hash L password 10
                    in case User_create L newEmail (r_name r) password_hash ''student'' t of
                         (Inl err, t1) \<Rightarrow> (Some (error_result r (error_message err)), t1)
                       | (Inr u, t1) \<Rightarrow>
                           (if isDuplicateCode then
                              (Some (skipped_result r
                                 ''Student code already exists - cannot create with suffix''),
                               user_destroy u t1)
                            else
                              (case Student_create (u_id u) (r_student_code r)
                                      (or_else (r_phone r) None Some) t1 of
                                 (Inl err, t2) \<Rightarrow> (Some (error_result r (error_message err)), t2)
                               | (Inr s, t2) \<Rightarrow>
                                   (Some \<lparr>status = ''created_with_suffix'',
                                          outrec = \<lparr>o_email = u_email u,
                                                    o_original_email = Some (r_email r),
                                                    o_name = Some (u_name u),
                                                    o_student_code = s_student_code s,
                                                    o_phone = s_phone s\<rparr>,
                                          message = ''Student created with email suffix: '' @ newEmail\<rparr>,
                                    t2)))))
            else if isDuplicateCode then
              (Some (skipped_result r ''Student code already exists''), t)
            else (None, t))
         else (Some (error_result r ''Invalid duplicate strategy''), t))
      else (None, t))"

section \<open>Processing in batches\<close>

record import_detail =
  d_rowNumber :: nat
  d_result :: result

record import_results =
  total :: nat
  created :: nat
  updated :: nat
  skipped :: nat
  failed :: nat
  details :: "import_detail list"

text \<open>\<open>xs.slice(a, b)\<close> for \<open>0 \<le> a \<le> b\<close>.\<close>

definition slice :: "'a list \<Rightarrow> nat \<Rightarrow> nat \<Rightarrow> 'a list" where
  "slice xs a b = take (b - a) (drop a xs)"

text \<open>
  The inner loop over one batch: the head of the list is \<open>batch[j]\<close>, its tail is
  \<open>batch.slice(j + 1)\<close>. Each row gets a transaction of its own, which is committed
  as soon as \<open>processRecord\<close> has returned. \<open>processRecord\<close> catches its own
  exceptions, so the \<open>catch\<close> clause of the loop is entered only after that commit:
  when the refresh of the duplicate index raises, or when reading the status of an
  undefined result fails. Its first statement rolls back the committed transaction,
  which raises in turn, and this exception ends the import (\<open>Inl\<close>); the store keeps
  what has been committed.
\<close>

fun process_batch ::
  "libs \<Rightarrow> string \<Rightarrow> csv_record list \<Rightarrow> duplicateInfo \<Rightarrow> import_results \<times> database
     \<Rightarrow> (error + import_results) \<times> database" where
  "process_batch L strategy [] duplicateInfo (results, db) = (Inr results, db)"
| "process_batch L strategy (r # remainingRecords) duplicateInfo (results, db) =
     (case processRecord L db r duplicateInfo strategy (sequelize_transaction db) of
        (Some res, t) \<Rightarrow>
          (let db1 = commit db t;
               isCreated = (status res = ''created'' \<or> status res = ''created_with_suffix'');
               results1 =
                 (if isCreated then results\<lparr>created := created results + 1\<rparr>
                  else if status res = ''updated'' then results\<lparr>updated := updated results + 1\<rparr>
                  else if status res = ''skipped'' then results\<lparr>skipped := skipped results + 1\<rparr>
                  else if status res = ''error'' then results\<lparr>failed := failed results + 1\<rparr>
                  else results);
               results2 = results1\<lparr>details := details results1 @
                            [\<lparr>d_rowNumber = r_rowNumber r, d_result = res\<rparr>]\<rparr>
           in if isCreated \<and> remainingRecords \<noteq> [] then
                (case detectDatabaseDuplicates L db1 remainingRecords of
                   Inl err \<Rightarrow> (Inl TransactionFinished, db1)
                 | Inr duplicateInfo1 \<Rightarrow>
                     process_batch L strategy remainingRecords duplicateInfo1 (results2, db1))
              else process_batch L strategy remainingRecords duplicateInfo (results2, db1))
      | (None, t) \<Rightarrow> (Inl TransactionFinished, commit db t))"

text \<open>
  The outer loop. The index of a batch is built before its first row, outside any
  \<open>try\<close>: an exception of \<open>detectDatabaseDuplicates\<close> there ends the import.
\<close>

function processBulkImport_loop ::
  "libs \<Rightarrow> string \<Rightarrow> csv_record list \<Rightarrow> nat \<Rightarrow> import_results \<times> database
     \<Rightarrow> (error + import_results) \<times> database" where
  "processBulkImport_loop L strategy records i (results, db) =
     (if i < length records then
        (let batch = slice records i (i + BATCH_SIZE) in
         case detectDatabaseDuplicates L db batch of
           Inl err \<Rightarrow> (Inl err, db)
         | Inr duplicateInfo \<Rightarrow>
             (case process_batch L strategy batch duplicateInfo (results, db) of
                (Inl err, db1) \<Rightarrow> (Inl err, db1)
              | (Inr results1, db1) \<Rightarrow>
                  processBulkImport_loop L strategy records (i + BATCH_SIZE) (results1, db1)))
      else (Inr results, db))"
  by pat_completeness auto
termination
  by (relation "measure (\<lambda>(L, strategy, records, i, x). length records - i)")
     (auto simp: BATCH_SIZE_def)

declare processBulkImport_loop.simps [simp del]

text \<open>
  \<open>processBulkImport\<close>: the summary, or the exception that ended the call, and in
  both cases the store as the call leaves it.
\<close>

definition processBulkImport ::
  "libs \<Rightarrow> database \<Rightarrow> csv_record list \<Rightarrow> string \<Rightarrow> (error + import_results) \<times> database" where
  "processBulkImport L db records strategy =
     (if strategy \<notin> set DUPLICATE_STRATEGIES
      then (Inl (InvalidStrategy strategy), db)
      else processBulkImport_loop L strategy records 0
             (\<lparr>total = length records, created = 0, updated = 0, skipped = 0, failed = 0,
               details = []\<rparr>, db))"

section \<open>Duplicates inside the file\<close>

record internal_duplicate =
  dup_rowNumber :: nat
  dup_field :: string
  dup_value :: string
  dup_duplicateOf :: nat
  dup_message :: string

record internal_duplicates =
  hasDuplicates :: bool
  duplicates :: "internal_duplicate list"
  duplicateCount :: nat

text \<open>
  The body of the \<open>forEach\<close>: the two maps (\<open>emailMap\<close> and \<open>studentCodeMap\<close> in
  the source, from a key to the row number that set it) and the duplicates so far.
\<close>

definition detect_step ::
  "libs \<Rightarrow> csv_record
     \<Rightarrow> (string \<rightharpoonup> nat) \<times> (string \<rightharpoonup> nat) \<times> internal_duplicate list
     \<Rightarrow> (string \<rightharpoonup> nat) \<times> (string \<rightharpoonup> nat) \<times> internal_duplicate list" where
  "detect_step L r acc =
     (case acc of (seenEmail, seenCode, dups) \<Rightarrow>
        (let e = toLowerCase L (r_email r);
             studentCode = r_student_code r;
             rowNumber = r_rowNumber r;
             (seenEmail1, dups1) =
               (if seenEmail e \<noteq> None then
                  (seenEmail,
                   dups @ [\<lparr>dup_rowNumber = rowNumber, dup_field = ''email'',
                            dup_value = r_email r, dup_duplicateOf = the (seenEmail e),
                            dup_message = ''Duplicate email found (first occurrence at row '' @
                              String_of_nat (the (seenEmail e)) @ '')''\<rparr>])
                else (seenEmail(e \<mapsto> rowNumber), dups));
             (seenCode1, dups2) =
               (if seenCode studentCode \<noteq> None then
                  (seenCode,
                   dups1 @ [\<lparr>dup_rowNumber = rowNumber, dup_field = ''student_code'',
                             dup_value = studentCode, dup_duplicateOf = the (seenCode studentCode),
                             dup_message =
                               ''Duplicate student code found (first occurrence at row '' @
                               String_of_nat (the (seenCode studentCode)) @ '')''\<rparr>])
                else (seenCode(studentCode \<mapsto> rowNumber), dups1))
         in (seenEmail1, seenCode1, dups2)))"

definition detectInternalDuplicates :: "libs \<Rightarrow> csv_record list \<Rightarrow> internal_duplicates" where
  "detectInternalDuplicates L records =
     (case fold (detect_step L) records (Map.empty, Map.empty, []) of
        (seenEmail, seenCode, dups) \<Rightarrow>
          \<lparr>hasDuplicates = (length dups > 0), duplicates = dups, duplicateCount = length dups\<rparr>)"

text \<open>
  The duplicates of a file, said with the rows themselves and no map. The first
  earlier row with a given property, if there is one:
\<close>

fun first_with :: "('a \<Rightarrow> bool) \<Rightarrow> 'a list \<Rightarrow> 'a option" where
  "first_with P [] = None"
| "first_with P (x # xs) = (if P x then Some x else first_with P xs)"

text \<open>
  A row is reported for its email when an earlier row has the same lower-cased email,
  and for its code when an earlier row has the same code; the report names the row,
  the field, the value as written in the row, and the row number of the first earlier
  row with that email or code. The reports come in the order of the rows, the email
  before the code.
\<close>

definition expected_reports :: "libs \<Rightarrow> csv_record list \<Rightarrow> csv_record \<Rightarrow> internal_duplicate list" where
  "expected_reports L earlier r =
     (case first_with (\<lambda>q. toLowerCase L (r_email q) = toLowerCase L (r_email r)) earlier of
        None \<Rightarrow> []
      | Some q \<Rightarrow>
          [\<lparr>dup_rowNumber = r_rowNumber r, dup_field = ''email'', dup_value = r_email r,
            dup_duplicateOf = r_rowNumber q,
            dup_message = ''Duplicate email found (first occurrence at row '' @
              String_of_nat (r_rowNumber q) @ '')''\<rparr>]) @
     (case first_with (\<lambda>q. r_student_code q = r_student_code r) earlier of
        None \<Rightarrow> []
      | Some q \<Rightarrow>
          [\<lparr>dup_rowNumber = r_rowNumber r, dup_field = ''student_code'',
            dup_value = r_student_code r, dup_duplicateOf = r_rowNumber q,
            dup_message = ''Duplicate student code found (first occurrence at row '' @
              String_of_nat (r_rowNumber q) @ '')''\<rparr>])"

fun duplicates_after :: "libs \<Rightarrow> csv_record list \<Rightarrow> csv_record list \<Rightarrow> internal_duplicate list" where
  "duplicates_after L earlier [] = []"
| "duplicates_after L earlier (r # rest) =
     expected_reports L earlier r @ duplicates_after L (earlier @ [r]) rest"

section \<open>The bulk import request\<close>

text \<open>
  The handler \<open>bulkImport\<close>, from the outcome of \<open>parseAndValidateCSV\<close> on: the parsed
  rows that passed the field rules, or the parse error. The strategy is the optional
  field of the request body, \<open>skip\<close> when absent. An exception of \<open>processBulkImport\<close>
  is handed to \<open>next\<close> as it is (\<open>Passed\<close>).
\<close>

record validation_results =
  v_success :: bool
  v_error :: string
  validRecords :: "csv_record list"

datatype api_error =
    ApiError nat string string
  | ApiErrorDuplicates nat string string "internal_duplicate list"
  | Passed error

definition bulkImport ::
  "libs \<Rightarrow> database \<Rightarrow> validation_results \<Rightarrow> string option
     \<Rightarrow> (api_error + import_results) \<times> database" where
  "bulkImport L db validationResults strategy_field =
     (let strategy = (case strategy_field of None \<Rightarrow> ''skip'' | Some s \<Rightarrow> s) in
      if strategy \<notin> set [''skip'', ''update'', ''suffix'']
        then (Inl (ApiError 400 ''Strategy must be one of: skip, update, suffix'' ''VALIDATION_ERROR''), db)
      else if \<not> v_success validationResults
        then (Inl (ApiError 400 (v_error validationResults) ''CSV_PARSE_ERROR''), db)
      else if length (validRecords validationResults) = 0
        then (Inl (ApiError 400 ''No valid records to import'' ''NO_VALID_RECORDS''), db)
      else
        (let internalDuplicates = detectInternalDuplicates L (validRecords validationResults) in
         if hasDuplicates internalDuplicates
           then (Inl (ApiErrorDuplicates 400
                   ''CSV contains internal duplicates. Please remove duplicate entries and try again.''
                   ''INTERNAL_DUPLICATES'' (duplicates internalDuplicates)), db)
         else
           (case processBulkImport L db (validRecords validationResults) strategy of
              (Inl err, db1) \<Rightarrow> (Inl (Passed err), db1)
            | (Inr results, db1) \<Rightarrow> (Inr results, db1))))"

section \<open>Concrete rows, stores and indexes\<close>

text \<open>
  Stand-ins for the library functions, for evaluating the import on rows written in
  ASCII: the hash only marks its input, every string with an \<open>@\<close> is an email, and
  the case mapping turns \<open>A\<close>..\<open>Z\<close> into \<open>a\<close>..\<open>z\<close>, which is what
  \<open>toLowerCase\<close> does to an ASCII string.
\<close>

definition ascii_lower_char :: "char \<Rightarrow> char" where
  "ascii_lower_char c =
     (let n = (of_char c :: nat) in if 65 \<le> n \<and> n \<le> 90 then char_of (n + 32) else c)"

definition plain_libs :: libs where
  "plain_libs = \<lparr>bcrypt_hash = (\<lambda>p rounds. ''$2b$'' @ p), isEmail = (\<lambda>e. CHR ''@'' \<in> set e),
                  toLowerCase = map ascii_lower_char\<rparr>"

definition mk_row :: "nat \<Rightarrow> string \<Rightarrow> string \<Rightarrow> string \<Rightarrow> csv_record" where
  "mk_row n nm e code =
     \<lparr>r_name = nm, r_email = e, r_student_code = code, r_phone = None, r_password = None,
      r_rowNumber = n\<rparr>"

definition empty_db :: database where
  "empty_db = \<lparr>users = [], students = []\<rparr>"

text \<open>An index written out by hand: the entries of its two maps.\<close>

definition index_of :: "(string \<times> dup_entry) list \<Rightarrow> (string \<times> dup_entry) list \<Rightarrow> duplicateInfo" where
  "index_of es cs = \<lparr>emailMap = map_of es, studentCodeMap = map_of cs\<rparr>"

text \<open>Two accounts with their profiles, and stores and an index made of them.\<close>

definition john :: user where
  "john = \<lparr>u_id = 1, u_email = ''j@x.com'', u_password_hash = ''x'', u_name = ''John'',
           u_role = ''student''\<rparr>"

definition john_profile :: student where
  "john_profile = \<lparr>s_id = 1, s_user_id = 1, s_student_code = ''S1'', s_phone = Some ''111''\<rparr>"

definition kim :: user where
  "kim = \<lparr>u_id = 2, u_email = ''k@x.com'', u_password_hash = ''y'', u_name = ''Kim'',
          u_role = ''student''\<rparr>"

definition kim_profile :: student where
  "kim_profile = \<lparr>s_id = 2, s_user_id = 2, s_student_code = ''S2'', s_phone = Some ''222''\<rparr>"

definition john_db :: database where
  "john_db = \<lparr>users = [john], students = [john_profile]\<rparr>"

definition two_account_db :: database where
  "two_account_db = \<lparr>users = [john, kim], students = [john_profile, kim_profile]\<rparr>"

definition john_entry :: dup_entry where
  "john_entry = \<lparr>e_user = john, e_student = Some john_profile\<rparr>"

text \<open>The index that holds John's account under his email and under his code.\<close>

definition john_index :: duplicateInfo where
  "john_index = index_of [(''j@x.com'', john_entry)] [(''S1'', john_entry)]"

text \<open>The index that holds John's account under his email only.\<close>

definition john_email_index :: duplicateInfo where
  "john_email_index = index_of [(''j@x.com'', john_entry)] []"

text \<open>The address \<open>local_n@domain\<close>, written out.\<close>

definition suffixed :: "string \<Rightarrow> string \<Rightarrow> nat \<Rightarrow> string" where
  "suffixed l d n = l @ ''_'' @ String_of_nat n @ ''@'' @ d"

text \<open>
  A store in which the address \<open>e\<close> and its variants \<open>1..k\<close> are all taken; the
  account of \<open>e\<close> has the profile with code \<open>code\<close>.
\<close>

definition crowded_db :: "string \<Rightarrow> string \<Rightarrow> nat \<Rightarrow> database" where
  "crowded_db e code k =
     \<lparr>users =
        \<lparr>u_id = 0, u_email = e, u_password_hash = ''x'', u_name = ''Base'', u_role = ''student''\<rparr> #
        map (\<lambda>n. \<lparr>u_id = n, u_email = generateEmailWithSuffix e n, u_password_hash = ''x'',
                   u_name = ''Variant'', u_role = ''student''\<rparr>) [1..<Suc k],
      students = [\<lparr>s_id = 0, s_user_id = 0, s_student_code = code, s_phone = None\<rparr>]\<rparr>"



text \<open>Two rows of one batch with the same email and different codes.\<close>

definition scenario_rows :: "csv_record list" where
  "scenario_rows = [mk_row 1 ''John'' ''j@x.com'' ''S1'', mk_row 2 ''Jane'' ''j@x.com'' ''S2'']"

text \<open>
  The content of the two maps of \<open>detectInternalDuplicates\<close> after the rows \<open>pre\<close>,
  for the proofs: a key is bound to the number of the first row that has it.
\<close>

definition seen_email :: "libs \<Rightarrow> csv_record list \<Rightarrow> string \<rightharpoonup> nat" where
  "seen_email L pre k =
     map_option r_rowNumber (first_with (\<lambda>q. toLowerCase L (r_email q) = k) pre)"

definition seen_code :: "csv_record list \<Rightarrow> string \<rightharpoonup> nat" where
  "seen_code pre k = map_option r_rowNumber (first_with (\<lambda>q. r_student_code q = k) pre)"

text \<open>Three rows: the second repeats the email of the first, the third its code.\<close>

definition repeating_rows :: "csv_record list" where
  "repeating_rows = [mk_row 1 ''John'' ''j@x.com'' ''S1'', mk_row 2 ''Jane'' ''J@x.com'' ''S2'',
                     mk_row 3 ''Kim'' ''k@x.com'' ''S1'']"

text \<open>
  A row into an empty store, and a row with a password whose email is John's, each
  with the index that holds what the store has for it, and their outcomes.
\<close>

definition plain_outcome :: "result option \<times> transaction" where
  "plain_outcome =
     processRecord plain_libs empty_db (mk_row 1 ''John'' ''j@x.com'' ''S1'') (index_of [] [])
       ''skip'' (sequelize_transaction empty_db)"

definition pw_row :: csv_record where
  "pw_row = (mk_row 2 ''Jane'' ''j@x.com'' ''S2'')\<lparr>r_password := Some ''longsecret''\<rparr>"

definition suffix_outcome :: "result option \<times> transaction" where
  "suffix_outcome =
     processRecord plain_libs john_db pw_row john_email_index ''suffix''
       (sequelize_transaction john_db)"

text \<open>
  A row whose email and code are both John's, and its outcome under the \<open>suffix\<close>
  strategy in a store and with an index; the index of a crowded store, which holds
  its base account under the email and under the code.
\<close>

definition both_taken_row :: csv_record where
  "both_taken_row = mk_row 1 ''Jane'' ''j@x.com'' ''S1''"

definition both_taken_outcome :: "database \<Rightarrow> duplicateInfo \<Rightarrow> result option \<times> transaction" where
  "both_taken_outcome db di =
     processRecord plain_libs db both_taken_row di SUFFIX (sequelize_transaction db)"

definition crowded_index :: "string \<Rightarrow> string \<Rightarrow> duplicateInfo" where
  "crowded_index e code =
     (let entry =
        \<lparr>e_user = \<lparr>u_id = 0, u_email = e, u_password_hash = ''x'', u_name = ''Base'',
                    u_role = ''student''\<rparr>,
         e_student = Some \<lparr>s_id = 0, s_user_id = 0, s_student_code = code, s_phone = None\<rparr>\<rparr>
      in index_of [(e, entry)] [(code, entry)])"

text \<open>Primary keys are unique.\<close>

definition unique_ids :: "database \<Rightarrow> bool" where
  "unique_ids db \<longleftrightarrow> distinct (map u_id (users db)) \<and> distinct (map s_id (students db))"

text \<open>
  An entry of the email map, found under the key \<open>k\<close>, is an entry of the store when
  its account is (by primary key) an account of the store whose lower-cased email is
  \<open>k\<close>, and its profile, if it has one, is (by primary key) a profile of the store owned
  by that account. This is what a lookup of \<open>k\<close> in the store returns, and it stays true
  when names and phones change.
\<close>

definition entry_of_store :: "libs \<Rightarrow> database \<Rightarrow> string \<Rightarrow> dup_entry \<Rightarrow> bool" where
  "entry_of_store L db k ex \<longleftrightarrow>
     list_ex (\<lambda>u. u_id u = u_id (e_user ex) \<and> toLowerCase L (u_email u) = k) (users db) \<and>
     (case e_student ex of
        None \<Rightarrow> True
      | Some st \<Rightarrow>
          list_ex (\<lambda>s. s_id s = s_id st \<and> s_user_id s = u_id (e_user ex)) (students db))"

definition email_entry_of_store :: "libs \<Rightarrow> database \<Rightarrow> duplicateInfo \<Rightarrow> string \<Rightarrow> bool" where
  "email_entry_of_store L db di k \<longleftrightarrow>
     (case emailMap di k of None \<Rightarrow> True | Some ex \<Rightarrow> entry_of_store L db k ex)"

text \<open>A row that updates John's account, and its outcome in the store of two accounts.\<close>

definition update_row :: csv_record where
  "update_row = (mk_row 4 ''John Updated'' ''j@x.com'' ''S1'')\<lparr>r_phone := Some ''999''\<rparr>"

definition update_outcome :: "result option \<times> transaction" where
  "update_outcome =
     processRecord plain_libs two_account_db update_row john_index UPDATE
       (sequelize_transaction two_account_db)"

text \<open>
  A row with John's email and another student code, and its outcome under the
  \<open>update\<close> strategy with the index that holds John's account, with its profile, under
  his email (the code \<open>S2\<close> is not in the store).
\<close>

definition mismatch_row :: csv_record where
  "mismatch_row = mk_row 1 ''Jane'' ''j@x.com'' ''S2''"

definition mismatch_outcome :: "result option \<times> transaction" where
  "mismatch_outcome =
     processRecord plain_libs john_db mismatch_row john_email_index ''update''
       (sequelize_transaction john_db)"




section \<open>Properties of the suffix allocator\<close>

lemma split_no_sep: "c \<notin> set s \<Longrightarrow> split c s = [s]"
  by (induction s) auto

lemma split_first: "c \<notin> set l \<Longrightarrow> split c (l @ c # d) = l # split c d"
  by (induction l) auto

lemma generateEmailWithSuffix_local_domain:
  assumes "CHR ''@'' \<notin> set l" and "CHR ''@'' \<notin> set d"
  shows "generateEmailWithSuffix (l @ ''@'' @ d) n = l @ ''_'' @ String_of_nat n @ ''@'' @ d"
  using assms by (simp add: generateEmailWithSuffix_def split_first split_no_sep)

lemma User_findOne_None_iff: "User_findOne db e = None \<longleftrightarrow> e \<notin> u_email ` set (users db)"
  by (auto simp: User_findOne_def find_None_iff)

lemma findAvailableEmail_loop_found:
  assumes "e = generateEmailWithSuffix orig s" and "s \<le> n" and "n \<le> 1000"
    and "\<forall>m. s \<le> m \<and> m < n \<longrightarrow> User_findOne db (generateEmailWithSuffix orig m) \<noteq> None"
    and "User_findOne db (generateEmailWithSuffix orig n) = None"
  shows "findAvailableEmail_loop db orig s e =
           (Inr (generateEmailWithSuffix orig n), map (generateEmailWithSuffix orig) [s..<Suc n])"
  using assms
proof (induction "n - s" arbitrary: s e)
  case 0
  then have "s = n" by simp
  with 0 show ?case
    by (simp add: findAvailableEmail_loop.simps [of db orig n])
next
  case (Suc k)
  then have lt: "s < n" by simp
  with Suc.prems obtain u where u: "User_findOne db e = Some u" by auto
  have ih: "findAvailableEmail_loop db orig (Suc s) (generateEmailWithSuffix orig (Suc s)) =
      (Inr (generateEmailWithSuffix orig n), map (generateEmailWithSuffix orig) [Suc s..<Suc n])"
    using Suc.hyps Suc.prems lt by (intro Suc.hyps(1)) auto
  have "[s..<Suc n] = s # [Suc s..<Suc n]"
    using lt by (simp add: upt_conv_Cons)
  with u ih lt Suc.prems(1,3) show ?case
    by (simp add: findAvailableEmail_loop.simps [of db orig s])
qed

lemma findAvailableEmail_loop_exhausted:
  assumes "e = generateEmailWithSuffix orig s" and "s \<le> 1000"
    and "\<forall>m. s \<le> m \<and> m \<le> 1000 \<longrightarrow> User_findOne db (generateEmailWithSuffix orig m) \<noteq> None"
  shows "findAvailableEmail_loop db orig s e =
           (Inl (AllocationExhausted orig), map (generateEmailWithSuffix orig) [s..<1001])"
  using assms
proof (induction "1000 - s" arbitrary: s e)
  case 0
  then have s: "s = 1000" by simp
  with 0 obtain u where u: "User_findOne db e = Some u" by auto
  have "[1000..<1001] = [1000::nat]" by (simp add: upt_conv_Cons)
  with u s 0 show ?case
    by (simp add: findAvailableEmail_loop.simps [of db orig 1000])
next
  case (Suc k)
  then have lt: "s < 1000" by simp
  with Suc.prems obtain u where u: "User_findOne db e = Some u" by auto
  have ih: "findAvailableEmail_loop db orig (Suc s) (generateEmailWithSuffix orig (Suc s)) =
      (Inl (AllocationExhausted orig), map (generateEmailWithSuffix orig) [Suc s..<1001])"
    using Suc.hyps Suc.prems lt by (intro Suc.hyps(1)) auto
  have "[s..<1001] = s # [Suc s..<1001]"
    using lt by (simp add: upt_conv_Cons)
  with u ih lt Suc.prems(1) show ?case
    by (simp add: findAvailableEmail_loop.simps [of db orig s])
qed

lemma crowded_db_taken:
  assumes "1 \<le> m" and "m \<le> k"
  shows "User_findOne (crowded_db e code k) (generateEmailWithSuffix e m) \<noteq> None"
proof -
  have "m \<in> set [1..<Suc k]" using assms by auto
  then have "generateEmailWithSuffix e m \<in> u_email ` set (users (crowded_db e code k))"
    by (force simp: crowded_db_def)
  then show ?thesis by (simp add: User_findOne_None_iff)
qed

lemma findAvailableEmail_crowded:
  "findAvailableEmail (crowded_db e code 1000) e = Inl (AllocationExhausted e)"
  unfolding findAvailableEmail_def findAvailableEmail_probes_def
  using findAvailableEmail_loop_exhausted [of "generateEmailWithSuffix e 1" e 1 "crowded_db e code 1000"]
    crowded_db_taken [of _ 1000 e code]
  by simp

text \<open>
  C6. For a base address \<open>local@domain\<close>, \<open>findAvailableEmail\<close> returns
  \<open>local_n@domain\<close> for the smallest \<open>n \<ge> 1\<close> whose variant is not in the store,
  having looked up exactly the variants \<open>1, 2, ..., n\<close>, one query each; when the
  variants \<open>1..1000\<close> are all in the store it fails with the exhaustion error, after
  1000 queries.
\<close>

theorem findAvailableEmail_smallest_free:
  assumes "CHR ''@'' \<notin> set l" and "CHR ''@'' \<notin> set d"
  shows "(1 \<le> n \<and> n \<le> 1000 \<and>
          (\<forall>m. 1 \<le> m \<and> m < n \<longrightarrow> User_findOne db (suffixed l d m) \<noteq> None) \<and>
          User_findOne db (suffixed l d n) = None
          \<longrightarrow> findAvailableEmail db (l @ ''@'' @ d) = Inr (suffixed l d n) \<and>
              snd (findAvailableEmail_probes db (l @ ''@'' @ d)) = map (suffixed l d) [1..<Suc n]) \<and>
         ((\<forall>m. 1 \<le> m \<and> m \<le> 1000 \<longrightarrow> User_findOne db (suffixed l d m) \<noteq> None)
          \<longrightarrow> findAvailableEmail db (l @ ''@'' @ d) = Inl (AllocationExhausted (l @ ''@'' @ d)) \<and>
              snd (findAvailableEmail_probes db (l @ ''@'' @ d)) = map (suffixed l d) [1..<1001])"
proof -
  have "generateEmailWithSuffix (l @ ''@'' @ d) k = suffixed l d k" for k
    using generateEmailWithSuffix_local_domain [OF assms] by (simp add: suffixed_def)
  then have gen: "generateEmailWithSuffix (l @ CHR ''@'' # d) = suffixed l d"
    by auto
  show ?thesis
  proof (intro conjI impI)
    assume h: "1 \<le> n \<and> n \<le> 1000 \<and>
      (\<forall>m. 1 \<le> m \<and> m < n \<longrightarrow> User_findOne db (suffixed l d m) \<noteq> None) \<and>
      User_findOne db (suffixed l d n) = None"
    have "findAvailableEmail_probes db (l @ ''@'' @ d) =
            (Inr (suffixed l d n), map (suffixed l d) [1..<Suc n])"
      unfolding findAvailableEmail_probes_def
      using findAvailableEmail_loop_found [of "suffixed l d 1" "l @ ''@'' @ d" 1 n db] h
      by (simp add: gen)
    then show "findAvailableEmail db (l @ ''@'' @ d) = Inr (suffixed l d n)"
      and "snd (findAvailableEmail_probes db (l @ ''@'' @ d)) = map (suffixed l d) [1..<Suc n]"
      by (simp_all add: findAvailableEmail_def)
  next
    assume h: "\<forall>m. 1 \<le> m \<and> m \<le> 1000 \<longrightarrow> User_findOne db (suffixed l d m) \<noteq> None"
    have "findAvailableEmail_probes db (l @ ''@'' @ d) =
            (Inl (AllocationExhausted (l @ ''@'' @ d)), map (suffixed l d) [1..<1001])"
      unfolding findAvailableEmail_probes_def
      using findAvailableEmail_loop_exhausted [of "suffixed l d 1" "l @ ''@'' @ d" 1 db] h
      by (simp add: gen)
    then show "findAvailableEmail db (l @ ''@'' @ d) = Inl (AllocationExhausted (l @ ''@'' @ d))"
      and "snd (findAvailableEmail_probes db (l @ ''@'' @ d)) = map (suffixed l d) [1..<1001]"
      by (simp_all add: findAvailableEmail_def)
  qed
qed


theorem findAvailableEmail_smallest_free_witness:
  "CHR ''@'' \<notin> set ''j'' \<and> CHR ''@'' \<notin> set ''x.com'' \<and>
   User_findOne (crowded_db ''j@x.com'' ''S1'' 1) ''j_1@x.com'' \<noteq> None \<and>
   User_findOne (crowded_db ''j@x.com'' ''S1'' 1) ''j_2@x.com'' = None \<and>
   findAvailableEmail (crowded_db ''j@x.com'' ''S1'' 1) ''j@x.com'' = Inr ''j_2@x.com'' \<and>
   snd (findAvailableEmail_probes (crowded_db ''j@x.com'' ''S1'' 1) ''j@x.com'') =
     [''j_1@x.com'', ''j_2@x.com''] \<and>
   findAvailableEmail (crowded_db ''j@x.com'' ''S1'' 1000) ''j@x.com'' =
     Inl (AllocationExhausted ''j@x.com'')"
proof -
  have a: "CHR ''@'' \<notin> set ''j''" and b: "CHR ''@'' \<notin> set ''x.com''" by simp_all
  have s1: "suffixed ''j'' ''x.com'' 1 = ''j_1@x.com''"
    and s2: "suffixed ''j'' ''x.com'' 2 = ''j_2@x.com''" by code_simp+
  have t1: "User_findOne (crowded_db ''j@x.com'' ''S1'' 1) ''j_1@x.com'' \<noteq> None"
    and f2: "User_findOne (crowded_db ''j@x.com'' ''S1'' 1) ''j_2@x.com'' = None" by code_simp+
  have low: "\<forall>m. 1 \<le> m \<and> m < 2 \<longrightarrow>
      User_findOne (crowded_db ''j@x.com'' ''S1'' 1) (suffixed ''j'' ''x.com'' m) \<noteq> None"
  proof (intro allI impI)
    fix m :: nat assume "1 \<le> m \<and> m < 2"
    then have "m = 1" by simp
    with t1 s1 show "User_findOne (crowded_db ''j@x.com'' ''S1'' 1) (suffixed ''j'' ''x.com'' m) \<noteq> None"
      by simp
  qed
  have all: "\<forall>m. 1 \<le> m \<and> m \<le> 1000 \<longrightarrow>
      User_findOne (crowded_db ''j@x.com'' ''S1'' 1000) (suffixed ''j'' ''x.com'' m) \<noteq> None"
  proof (intro allI impI)
    fix m :: nat assume m: "1 \<le> m \<and> m \<le> 1000"
    have "generateEmailWithSuffix (''j'' @ ''@'' @ ''x.com'') m = suffixed ''j'' ''x.com'' m"
      using generateEmailWithSuffix_local_domain [OF a b] by (simp add: suffixed_def)
    with crowded_db_taken [of m 1000 "''j@x.com''" "''S1''"] m
    show "User_findOne (crowded_db ''j@x.com'' ''S1'' 1000) (suffixed ''j'' ''x.com'' m) \<noteq> None"
      by simp
  qed
  have two: "[1..<Suc 2] = [1, 2::nat]" by (simp add: upt_conv_Cons)
  from findAvailableEmail_smallest_free [OF a b, of 2 "crowded_db ''j@x.com'' ''S1'' 1"] low f2 s1 s2 two
  have r1: "findAvailableEmail (crowded_db ''j@x.com'' ''S1'' 1) ''j@x.com'' = Inr ''j_2@x.com''"
    and r2: "snd (findAvailableEmail_probes (crowded_db ''j@x.com'' ''S1'' 1) ''j@x.com'') =
       [''j_1@x.com'', ''j_2@x.com'']"
    by simp_all
  from findAvailableEmail_smallest_free [OF a b, of 2 "crowded_db ''j@x.com'' ''S1'' 1000"] all
  have r3: "findAvailableEmail (crowded_db ''j@x.com'' ''S1'' 1000) ''j@x.com'' =
     Inl (AllocationExhausted ''j@x.com'')"
    by simp
  from a b t1 f2 r1 r2 r3 show ?thesis by blast
qed

section \<open>The lookup against the store\<close>






section \<open>Runs of the import\<close>


text \<open>
  C2. The two rows of the first scenario (same email \<open>j@x.com\<close>, codes \<open>S1\<close> and
  \<open>S2\<close>), strategy \<open>skip\<close>, empty store. The call builds the index of the batch first;
  the query includes \<open>Student\<close> under the alias \<open>student\<close>, which \<open>User\<close> does not
  declare, and raises. No row is processed: there is no summary, nothing is created and
  nothing is skipped.
\<close>

theorem scenario_pair_raises:
  "processBulkImport plain_libs empty_db scenario_rows ''skip'' =
     (Inl (EagerLoadingError ''User'' ''Student'' ''student'' [''studentProfile'']), empty_db)"
  by code_simp



section \<open>Properties of the precheck of the file\<close>

lemma first_with_snoc:
  "first_with P (xs @ [x]) =
     (case first_with P xs of Some y \<Rightarrow> Some y | None \<Rightarrow> if P x then Some x else None)"
  by (induction xs) auto

lemma first_with_Some_in: "first_with P xs = Some x \<Longrightarrow> x \<in> set xs \<and> P x"
  by (induction xs) (auto split: if_splits)

lemma first_with_None_iff: "first_with P xs = None \<longleftrightarrow> (\<forall>x\<in>set xs. \<not> P x)"
  by (induction xs) auto

lemma seen_email_snoc:
  "seen_email L (pre @ [r]) =
     (case seen_email L pre (toLowerCase L (r_email r)) of
        Some first \<Rightarrow> seen_email L pre
      | None \<Rightarrow> (seen_email L pre)(toLowerCase L (r_email r) \<mapsto> r_rowNumber r))"
  by (rule ext) (auto simp: seen_email_def first_with_snoc split: option.splits)

lemma seen_code_snoc:
  "seen_code (pre @ [r]) =
     (case seen_code pre (r_student_code r) of
        Some first \<Rightarrow> seen_code pre
      | None \<Rightarrow> (seen_code pre)(r_student_code r \<mapsto> r_rowNumber r))"
  by (rule ext) (auto simp: seen_code_def first_with_snoc split: option.splits)

lemma detect_step_seen:
  "detect_step L r (seen_email L pre, seen_code pre, dups) =
     (seen_email L (pre @ [r]), seen_code (pre @ [r]), dups @ expected_reports L pre r)"
  unfolding detect_step_def seen_email_snoc seen_code_snoc
  by (auto simp: expected_reports_def seen_email_def seen_code_def Let_def split: option.splits)

lemma fold_detect_step:
  "fold (detect_step L) rest (seen_email L pre, seen_code pre, dups) =
     (seen_email L (pre @ rest), seen_code (pre @ rest), dups @ duplicates_after L pre rest)"
proof (induction rest arbitrary: pre dups)
  case Nil
  show ?case by simp
next
  case (Cons r rest)
  show ?case
    using Cons.IH [of "pre @ [r]" "dups @ expected_reports L pre r"]
    by (simp add: detect_step_seen)
qed

lemma detectInternalDuplicates_eq:
  "detectInternalDuplicates L records =
     \<lparr>hasDuplicates = (duplicates_after L [] records \<noteq> []),
      duplicates = duplicates_after L [] records,
      duplicateCount = length (duplicates_after L [] records)\<rparr>"
proof -
  have e: "seen_email L [] = Map.empty" and c: "seen_code [] = Map.empty"
    by (auto simp: seen_email_def seen_code_def)
  show ?thesis
    using fold_detect_step [of L records "[]" "[]"]
    by (simp add: detectInternalDuplicates_def e c)
qed

lemma expected_reports_Nil_iff:
  "expected_reports L pre r = [] \<longleftrightarrow>
     toLowerCase L (r_email r) \<notin> (\<lambda>q. toLowerCase L (r_email q)) ` set pre \<and>
     r_student_code r \<notin> r_student_code ` set pre"
  by (auto simp: expected_reports_def first_with_None_iff image_iff split: option.splits
        dest!: first_with_Some_in) metis+

lemma duplicates_after_Nil_iff:
  assumes "distinct (map (\<lambda>q. toLowerCase L (r_email q)) pre)" and "distinct (map r_student_code pre)"
  shows "duplicates_after L pre rest = [] \<longleftrightarrow>
     distinct (map (\<lambda>q. toLowerCase L (r_email q)) (pre @ rest)) \<and>
     distinct (map r_student_code (pre @ rest))"
  using assms
proof (induction rest arbitrary: pre)
  case Nil
  then show ?case by simp
next
  case (Cons r rest)
  show ?case
  proof (cases "expected_reports L pre r = []")
    case True
    then have fresh: "toLowerCase L (r_email r) \<notin> (\<lambda>q. toLowerCase L (r_email q)) ` set pre"
      "r_student_code r \<notin> r_student_code ` set pre"
      by (simp_all add: expected_reports_Nil_iff)
    with Cons.prems have "distinct (map (\<lambda>q. toLowerCase L (r_email q)) (pre @ [r]))"
      and "distinct (map r_student_code (pre @ [r]))" by auto
    from Cons.IH [OF this] True show ?thesis by simp
  next
    case False
    then have "toLowerCase L (r_email r) \<in> (\<lambda>q. toLowerCase L (r_email q)) ` set pre \<or>
      r_student_code r \<in> r_student_code ` set pre"
      by (simp add: expected_reports_Nil_iff)
    with False show ?thesis by auto
  qed
qed

text \<open>
  C7. \<open>detectInternalDuplicates\<close> reports exactly the rows whose lower-cased email,
  or whose student code, occurred in an earlier row of the file: one entry for the email
  and one for the code, in the order of the rows, each with the row's number, the field,
  the value as written and the row number of the first earlier row that had the email or
  the code (\<open>duplicates_after\<close>, which is written with the rows and no map). It reports
  something exactly when the emails (lower-cased) or the codes are not pairwise distinct.
  When it does, \<open>bulkImport\<close> rejects the request before any batch is processed and the
  store is what it was.
\<close>

theorem detectInternalDuplicates_fail_fast:
  "duplicates (detectInternalDuplicates L records) = duplicates_after L [] records \<and>
   (hasDuplicates (detectInternalDuplicates L records) \<longleftrightarrow>
      \<not> (distinct (map (\<lambda>r. toLowerCase L (r_email r)) records) \<and>
         distinct (map r_student_code records))) \<and>
   (hasDuplicates (detectInternalDuplicates L (validRecords vr)) \<longrightarrow>
      snd (bulkImport L db vr strategy_field) = db \<and>
      (\<exists>err. fst (bulkImport L db vr strategy_field) = Inl err) \<and>
      ((case strategy_field of None \<Rightarrow> ''skip'' | Some s \<Rightarrow> s) \<in> set [''skip'', ''update'', ''suffix'']
         \<and> v_success vr \<longrightarrow>
       fst (bulkImport L db vr strategy_field) =
         Inl (ApiErrorDuplicates 400
           ''CSV contains internal duplicates. Please remove duplicate entries and try again.''
           ''INTERNAL_DUPLICATES'' (duplicates_after L [] (validRecords vr)))))"
proof (intro conjI impI)
  show "duplicates (detectInternalDuplicates L records) = duplicates_after L [] records"
    by (simp add: detectInternalDuplicates_eq)
  show "hasDuplicates (detectInternalDuplicates L records) \<longleftrightarrow>
      \<not> (distinct (map (\<lambda>r. toLowerCase L (r_email r)) records) \<and>
         distinct (map r_student_code records))"
    using duplicates_after_Nil_iff [of L "[]" records]
    by (simp add: detectInternalDuplicates_eq)
next
  assume h: "hasDuplicates (detectInternalDuplicates L (validRecords vr))"
  then have ne: "validRecords vr \<noteq> []"
    by (auto simp: detectInternalDuplicates_eq)
  from h show "snd (bulkImport L db vr strategy_field) = db"
    by (simp add: bulkImport_def Let_def)
  from h show "\<exists>err. fst (bulkImport L db vr strategy_field) = Inl err"
    by (simp add: bulkImport_def Let_def)
  assume "(case strategy_field of None \<Rightarrow> ''skip'' | Some s \<Rightarrow> s) \<in> set [''skip'', ''update'', ''suffix'']
         \<and> v_success vr"
  with h ne show "fst (bulkImport L db vr strategy_field) =
         Inl (ApiErrorDuplicates 400
           ''CSV contains internal duplicates. Please remove duplicate entries and try again.''
           ''INTERNAL_DUPLICATES'' (duplicates_after L [] (validRecords vr)))"
    by (simp add: bulkImport_def Let_def detectInternalDuplicates_eq)
qed

theorem detectInternalDuplicates_fail_fast_witness:
  "hasDuplicates (detectInternalDuplicates plain_libs repeating_rows) \<and>
   duplicates (detectInternalDuplicates plain_libs repeating_rows) =
     [\<lparr>dup_rowNumber = 2, dup_field = ''email'', dup_value = ''J@x.com'', dup_duplicateOf = 1,
       dup_message = ''Duplicate email found (first occurrence at row 1)''\<rparr>,
      \<lparr>dup_rowNumber = 3, dup_field = ''student_code'', dup_value = ''S1'', dup_duplicateOf = 1,
       dup_message = ''Duplicate student code found (first occurrence at row 1)''\<rparr>] \<and>
   bulkImport plain_libs john_db
      \<lparr>v_success = True, v_error = [], validRecords = repeating_rows\<rparr> (Some ''skip'') =
     (Inl (ApiErrorDuplicates 400
        ''CSV contains internal duplicates. Please remove duplicate entries and try again.''
        ''INTERNAL_DUPLICATES''
        [\<lparr>dup_rowNumber = 2, dup_field = ''email'', dup_value = ''J@x.com'', dup_duplicateOf = 1,
          dup_message = ''Duplicate email found (first occurrence at row 1)''\<rparr>,
         \<lparr>dup_rowNumber = 3, dup_field = ''student_code'', dup_value = ''S1'', dup_duplicateOf = 1,
          dup_message = ''Duplicate student code found (first occurrence at row 1)''\<rparr>]), john_db)"
proof -
  have d: "duplicates_after plain_libs [] repeating_rows =
     [\<lparr>dup_rowNumber = 2, dup_field = ''email'', dup_value = ''J@x.com'', dup_duplicateOf = 1,
       dup_message = ''Duplicate email found (first occurrence at row 1)''\<rparr>,
      \<lparr>dup_rowNumber = 3, dup_field = ''student_code'', dup_value = ''S1'', dup_duplicateOf = 1,
       dup_message = ''Duplicate student code found (first occurrence at row 1)''\<rparr>]"
    by code_simp
  have h: "hasDuplicates (detectInternalDuplicates plain_libs repeating_rows)"
    by code_simp
  note t = detectInternalDuplicates_fail_fast [of plain_libs repeating_rows
      "\<lparr>v_success = True, v_error = [], validRecords = repeating_rows\<rparr>"
      john_db "Some ''skip''"]
  from t h d show ?thesis
    by (simp add: prod_eq_iff)
qed

section \<open>The writes of one row\<close>

lemma User_create_Inr:
  assumes "User_create L e nm h role t = (Inr u, t1)"
  shows "t1 = t\<lparr>t_db := (t_db t)\<lparr>users := users (t_db t) @ [u]\<rparr>\<rparr>"
    and "u = \<lparr>u_id = fresh_id (map u_id (users (t_db t))), u_email = e,
              u_password_hash = h, u_name = nm, u_role = role\<rparr>"
    and "isEmail L e" and "notEmpty nm" and "e \<notin> set (map u_email (users (t_db t)))"
  using assms by (auto simp: User_create_def Let_def split: if_splits)

lemma User_create_Inl:
  assumes "User_create L e nm h role t = (Inl err, t1)"
  shows "t_db t1 = t_db t" and "t_aborted t1 \<or> t1 = t"
  using assms by (auto simp: User_create_def Let_def split: if_splits)

lemma Student_create_Inr:
  assumes "Student_create uid code ph t = (Inr s, t1)"
  shows "t1 = t\<lparr>t_db := (t_db t)\<lparr>students := students (t_db t) @ [s]\<rparr>\<rparr>"
    and "s = \<lparr>s_id = fresh_id (map s_id (students (t_db t))), s_user_id = uid,
              s_student_code = code, s_phone = ph\<rparr>"
  using assms by (auto simp: Student_create_def Let_def split: if_splits)

lemma Student_create_Inl:
  assumes "Student_create uid code ph t = (Inl err, t1)"
  shows "t_db t1 = t_db t" and "t_aborted t1 \<or> (t1 = t \<and> \<not> notEmpty code)"
  using assms by (auto simp: Student_create_def Let_def split: if_splits)

text \<open>How a row comes to be reported as created.\<close>

lemma processRecord_created:
  assumes "processRecord L db r di strategy t = (Some res, t')"
    and "status res = ''created'' \<or> status res = ''created_with_suffix''"
  shows "\<exists>e u t1 s.
      User_create L e (r_name r) (bcrypt_hash L (or_else (r_password r) ''student123'' (\<lambda>p. p)) 10)
        ''student'' t = (Inr u, t1) \<and>
      Student_create (u_id u) (r_student_code r) (or_else (r_phone r) None Some) t1 = (Inr s, t') \<and>
      (if status res = ''created'' then e = r_email r
       else findAvailableEmail db (r_email r) = Inr e)"
  using assms
  by (auto simp: processRecord_def Let_def error_result_def skipped_result_def
      split: if_splits option.splits sum.splits prod.splits)

text \<open>
  C10. A row reported as \<open>created\<close> or \<open>created_with_suffix\<close> has added exactly one
  account to the store, with role \<open>student\<close>; its password hash is the bcrypt hash (10
  rounds) of \<open>student123\<close> when the row has no password (or an empty one, which
  \<open>||\<close> treats as absent), and of the row's password when it has one.
\<close>

theorem created_account_credentials:
  assumes "processRecord L db r di strategy (sequelize_transaction db) = (Some res, t)"
    and "status res = ''created'' \<or> status res = ''created_with_suffix''"
  shows "\<exists>u. users (commit db t) = users db @ [u] \<and> u_role u = ''student'' \<and>
     (r_password r = None \<or> r_password r = Some []
        \<longrightarrow> u_password_hash u = bcrypt_hash L ''student123'' 10) \<and>
     (\<forall>p. r_password r = Some p \<and> p \<noteq> [] \<longrightarrow> u_password_hash u = bcrypt_hash L p 10)"
proof -
  from processRecord_created [OF assms] obtain e u t1 s where
    uc: "User_create L e (r_name r) (bcrypt_hash L (or_else (r_password r) ''student123'' (\<lambda>p. p)) 10)
        ''student'' (sequelize_transaction db) = (Inr u, t1)"
    and sc: "Student_create (u_id u) (r_student_code r) (or_else (r_phone r) None Some) t1 = (Inr s, t)"
    by blast
  note u = User_create_Inr [OF uc]
  note s = Student_create_Inr [OF sc]
  have "users (commit db t) = users db @ [u]"
    using s(1) u(1) by (simp add: commit_def sequelize_transaction_def)
  moreover have "u_role u = ''student''"
    using u(2) by simp
  moreover have "u_password_hash u = bcrypt_hash L (or_else (r_password r) ''student123'' (\<lambda>p. p)) 10"
    using u(2) by simp
  ultimately show ?thesis
    by (auto simp: or_else_def)
qed

theorem created_account_credentials_witness:
  "map_option status (fst plain_outcome) = Some ''created'' \<and>
   r_password (mk_row 1 ''John'' ''j@x.com'' ''S1'') = None \<and>
   u_role (last (users (commit empty_db (snd plain_outcome)))) = ''student'' \<and>
   u_password_hash (last (users (commit empty_db (snd plain_outcome)))) =
     bcrypt_hash plain_libs ''student123'' 10 \<and>
   map_option status (fst suffix_outcome) = Some ''created_with_suffix'' \<and>
   r_password pw_row = Some ''longsecret'' \<and>
   u_role (last (users (commit john_db (snd suffix_outcome)))) = ''student'' \<and>
   u_password_hash (last (users (commit john_db (snd suffix_outcome)))) =
     bcrypt_hash plain_libs ''longsecret'' 10"
proof -
  have p: "processRecord plain_libs empty_db (mk_row 1 ''John'' ''j@x.com'' ''S1'') (index_of [] [])
       ''skip'' (sequelize_transaction empty_db) = (Some (the (fst plain_outcome)), snd plain_outcome)"
    by code_simp
  have ps: "status (the (fst plain_outcome)) = ''created''"
    and ps': "map_option status (fst plain_outcome) = Some ''created''"
    and pn: "r_password (mk_row 1 ''John'' ''j@x.com'' ''S1'') = None"
    by code_simp+
  have q: "processRecord plain_libs john_db pw_row john_email_index ''suffix''
       (sequelize_transaction john_db) = (Some (the (fst suffix_outcome)), snd suffix_outcome)"
    by code_simp
  have qs: "status (the (fst suffix_outcome)) = ''created_with_suffix''"
    and qs': "map_option status (fst suffix_outcome) = Some ''created_with_suffix''"
    and qn: "r_password pw_row = Some ''longsecret''"
    by code_simp+
  from created_account_credentials [OF p] ps pn
  have a: "u_role (last (users (commit empty_db (snd plain_outcome)))) = ''student'' \<and>
     u_password_hash (last (users (commit empty_db (snd plain_outcome)))) =
       bcrypt_hash plain_libs ''student123'' 10"
    by auto
  from created_account_credentials [OF q] qs qn
  have b: "u_role (last (users (commit john_db (snd suffix_outcome)))) = ''student'' \<and>
   u_password_hash (last (users (commit john_db (snd suffix_outcome)))) =
     bcrypt_hash plain_libs ''longsecret'' 10"
    by auto
  from ps' pn a qs' qn b show ?thesis by blast
qed

section \<open>Email and code both taken, strategy suffix\<close>

lemma fold_max_ge: "a \<le> fold max xs (a::nat)"
  by (induction xs arbitrary: a) (auto intro: order_trans [OF max.cobounded2])

lemma fold_max_mem: "x \<in> set xs \<Longrightarrow> x \<le> fold max xs (a::nat)"
proof (induction xs arbitrary: a)
  case Nil
  then show ?case by simp
next
  case (Cons y ys)
  show ?case
  proof (cases "x = y")
    case True
    have "y \<le> max y a" by simp
    also have "\<dots> \<le> fold max ys (max y a)" by (rule fold_max_ge)
    finally show ?thesis using True by simp
  next
    case False
    with Cons show ?thesis by simp
  qed
qed

lemma fresh_id_fresh: "fresh_id ids \<notin> set ids"
proof
  assume "fresh_id ids \<in> set ids"
  from fold_max_mem [OF this, of 0] show False by (simp add: fresh_id_def)
qed

lemma filter_fresh_user: "filter (\<lambda>x. u_id x \<noteq> fresh_id (map u_id us)) us = us"
proof -
  have "\<forall>x \<in> set us. u_id x \<noteq> fresh_id (map u_id us)"
    using fresh_id_fresh [of "map u_id us"] by (auto simp: image_iff)
  then show ?thesis by (simp add: filter_id_conv)
qed

lemma findAvailableEmail_loop_free:
  "findAvailableEmail_loop db orig s e = (Inr e', ps) \<Longrightarrow> User_findOne db e' = None"
proof (induction db orig s e arbitrary: ps rule: findAvailableEmail_loop.induct)
  case (1 db orig s e)
  show ?case
  proof (cases "User_findOne db e")
    case None
    with "1.prems" show ?thesis
      by (simp add: findAvailableEmail_loop.simps [of db orig s e])
  next
    case (Some u)
    with "1.prems" have le: "\<not> 1000 < s + 1"
      by (auto simp: findAvailableEmail_loop.simps [of db orig s e] split: if_splits)
    from "1.prems" Some le obtain qs where
      "findAvailableEmail_loop db orig (s + 1) (generateEmailWithSuffix orig (s + 1)) = (Inr e', qs)"
      by (auto simp: findAvailableEmail_loop.simps [of db orig s e] split: prod.splits)
    from "1.IH" [OF Some le this] show ?thesis .
  qed
qed

lemma findAvailableEmail_free:
  assumes "findAvailableEmail db e = Inr e'"
  shows "e' \<notin> set (map u_email (users db))"
proof -
  obtain ps where "findAvailableEmail_loop db e 1 (generateEmailWithSuffix e 1) = (Inr e', ps)"
    using assms
    by (cases "findAvailableEmail_loop db e 1 (generateEmailWithSuffix e 1)")
       (simp add: findAvailableEmail_def findAvailableEmail_probes_def)
  from findAvailableEmail_loop_free [OF this] show ?thesis
    by (simp add: User_findOne_None_iff)
qed

lemma processRecord_suffix_exhausted:
  assumes "emailMap di (toLowerCase L (r_email r)) \<noteq> None"
    and "findAvailableEmail db (r_email r) = Inl err"
  shows "fst (processRecord L db r di SUFFIX t) = Some (error_result r (error_message err))"
proof -
  from assms obtain ex where "emailMap di (toLowerCase L (r_email r)) = Some ex" by auto
  with assms(2) show ?thesis
    by (simp add: processRecord_def Let_def SUFFIX_def SKIP_def UPDATE_def)
qed

text \<open>
  C5. A row whose email and student code are both flagged as duplicates, under the
  \<open>suffix\<close> strategy, leaves the store as it was. When the allocator finds a free
  address and the new account passes the validators of the user model, the account is
  inserted and deleted again inside the row's transaction and the row is \<open>skipped\<close>
  with the code-collision message; when the allocator is exhausted, or the account is
  refused, the row is reported with status \<open>error\<close>.
\<close>

theorem suffix_code_collision_leaves_store:
  assumes "emailMap di (toLowerCase L (r_email r)) \<noteq> None"
    and "studentCodeMap di (r_student_code r) \<noteq> None"
  shows "\<exists>res t. processRecord L db r di SUFFIX (sequelize_transaction db) = (Some res, t) \<and>
     commit db t = db \<and>
     (case findAvailableEmail db (r_email r) of
        Inl err \<Rightarrow> status res = ''error''
      | Inr e \<Rightarrow>
          if isEmail L e \<and> notEmpty (r_name r)
          then res = skipped_result r ''Student code already exists - cannot create with suffix''
          else status res = ''error'')"
proof -
  from assms obtain ex cx where
    dup: "emailMap di (toLowerCase L (r_email r)) = Some ex"
      "studentCodeMap di (r_student_code r) = Some cx"
    by auto
  show ?thesis
  proof (cases "findAvailableEmail db (r_email r)")
  case (Inl err)
  with dup show ?thesis
    by (simp add: processRecord_def Let_def SUFFIX_def SKIP_def UPDATE_def error_result_def
        commit_def sequelize_transaction_def)
next
  case (Inr e)
  have free: "e \<notin> set (map u_email (users db))"
    by (rule findAvailableEmail_free [OF Inr])
  show ?thesis
  proof (cases "isEmail L e \<and> notEmpty (r_name r)")
    case True
    with dup Inr free show ?thesis
      by (simp add: processRecord_def Let_def SUFFIX_def SKIP_def UPDATE_def User_create_def
          user_destroy_def commit_def sequelize_transaction_def filter_fresh_user)
  next
    case False
    with dup Inr free show ?thesis
      by (auto simp: processRecord_def Let_def SUFFIX_def SKIP_def UPDATE_def User_create_def
          error_result_def commit_def sequelize_transaction_def)
  qed
  qed
qed

theorem suffix_code_collision_leaves_store_witness:
  "emailMap john_index (toLowerCase plain_libs (r_email both_taken_row)) \<noteq> None \<and>
   studentCodeMap john_index (r_student_code both_taken_row) \<noteq> None \<and>
   findAvailableEmail john_db (r_email both_taken_row) = Inr ''j_1@x.com'' \<and>
   fst (both_taken_outcome john_db john_index) =
     Some (skipped_result both_taken_row ''Student code already exists - cannot create with suffix'') \<and>
   commit john_db (snd (both_taken_outcome john_db john_index)) = john_db"
proof -
  have e: "emailMap john_index (toLowerCase plain_libs (r_email both_taken_row)) \<noteq> None"
    and c: "studentCodeMap john_index (r_student_code both_taken_row) \<noteq> None"
    and f: "findAvailableEmail john_db (r_email both_taken_row) = Inr ''j_1@x.com''"
    and v: "isEmail plain_libs ''j_1@x.com'' \<and> notEmpty (r_name both_taken_row)"
    by code_simp+
  from suffix_code_collision_leaves_store [OF e c, of john_db] f v
  have "fst (both_taken_outcome john_db john_index) =
     Some (skipped_result both_taken_row ''Student code already exists - cannot create with suffix'') \<and>
     commit john_db (snd (both_taken_outcome john_db john_index)) = john_db"
    by (auto simp: both_taken_outcome_def)
  with e c f show ?thesis by blast
qed

theorem suffix_code_collision_exhausted:
  "emailMap (crowded_index ''j@x.com'' ''S1'') (toLowerCase plain_libs (r_email both_taken_row)) \<noteq> None \<and>
   studentCodeMap (crowded_index ''j@x.com'' ''S1'') (r_student_code both_taken_row) \<noteq> None \<and>
   map_option status
     (fst (both_taken_outcome (crowded_db ''j@x.com'' ''S1'' 1000) (crowded_index ''j@x.com'' ''S1''))) =
     Some ''error'' \<and>
   map_option status
     (fst (both_taken_outcome (crowded_db ''j@x.com'' ''S1'' 1000) (crowded_index ''j@x.com'' ''S1''))) \<noteq>
     Some ''skipped''"
proof -
  let ?db = "crowded_db ''j@x.com'' ''S1'' 1000"
  let ?di = "crowded_index ''j@x.com'' ''S1''"
  have em: "r_email both_taken_row = ''j@x.com''" by code_simp
  have e: "emailMap ?di (toLowerCase plain_libs (r_email both_taken_row)) \<noteq> None"
    and c: "studentCodeMap ?di (r_student_code both_taken_row) \<noteq> None"
    by code_simp+
  have "findAvailableEmail ?db (r_email both_taken_row) = Inl (AllocationExhausted ''j@x.com'')"
    using findAvailableEmail_crowded [of "''j@x.com''" "''S1''"] em by simp
  from processRecord_suffix_exhausted [OF e this]
  have "map_option status (fst (both_taken_outcome ?db ?di)) = Some ''error''"
    by (simp add: both_taken_outcome_def error_result_def)
  with e c show ?thesis by auto
qed

section \<open>What an update touches\<close>

lemma processRecord_updated:
  assumes "processRecord L db r di UPDATE t = (Some res, t')"
    and "status res = ''updated''"
  shows "\<exists>ex st. emailMap di (toLowerCase L (r_email r)) = Some ex \<and> e_student ex = Some st \<and>
      t_db t' = (t_db t)\<lparr>
        users := map (\<lambda>x. if u_id x = u_id (e_user ex) then x\<lparr>u_name := r_name r\<rparr> else x)
                   (users (t_db t)),
        students := map (\<lambda>x. if s_id x = s_id st
                              then x\<lparr>s_phone := or_else (r_phone r) (s_phone st) Some\<rparr> else x)
                      (students (t_db t))\<rparr> \<and>
      t_aborted t' = t_aborted t"
  using assms
  by (auto simp: processRecord_def Let_def error_result_def skipped_result_def
      user_update_def student_update_def UPDATE_def SKIP_def
      split: if_splits option.splits sum.splits prod.splits)

lemma distinct_map_nth_eq:
  assumes "distinct (map f xs)" and "i < length xs" and "j < length xs" and "f (xs ! i) = f (xs ! j)"
  shows "i = j"
proof -
  have "map f xs ! i = map f xs ! j" using assms by simp
  with nth_eq_iff_index_eq [of "map f xs" i j] assms show ?thesis by simp
qed

text \<open>
  C9. A row reported as \<open>updated\<close> changes nothing in the store but names of accounts
  and phones of profiles: every account keeps its id, email, password hash and role,
  every profile its id, owner and student code, and no row is added or removed. When
  the entry that the index holds under the row's lower-cased email is an entry of the
  store, an account whose lower-cased email is not the row's is left exactly as it
  was, and so is a profile whose owner is not an account with that email.
\<close>

theorem update_frame:
  assumes "unique_ids db"
    and "email_entry_of_store L db di (toLowerCase L (r_email r))"
    and "processRecord L db r di UPDATE (sequelize_transaction db) = (Some res, t)"
    and "status res = ''updated''"
  shows "length (users (commit db t)) = length (users db) \<and>
     length (students (commit db t)) = length (students db) \<and>
     (\<forall>i < length (users db).
        users (commit db t) ! i = (users db ! i)\<lparr>u_name := u_name (users (commit db t) ! i)\<rparr> \<and>
        (toLowerCase L (u_email (users db ! i)) \<noteq> toLowerCase L (r_email r)
           \<longrightarrow> users (commit db t) ! i = users db ! i)) \<and>
     (\<forall>j < length (students db).
        students (commit db t) ! j =
          (students db ! j)\<lparr>s_phone := s_phone (students (commit db t) ! j)\<rparr> \<and>
        ((\<forall>u \<in> set (users db). u_id u = s_user_id (students db ! j)
             \<longrightarrow> toLowerCase L (u_email u) \<noteq> toLowerCase L (r_email r))
           \<longrightarrow> students (commit db t) ! j = students db ! j))"
proof -
  let ?k = "toLowerCase L (r_email r)"
  from processRecord_updated [OF assms(3,4)] obtain ex st where
    em: "emailMap di ?k = Some ex"
    and st: "e_student ex = Some st"
    and us: "users (commit db t) =
        map (\<lambda>x. if u_id x = u_id (e_user ex) then x\<lparr>u_name := r_name r\<rparr> else x) (users db)"
    and ss: "students (commit db t) =
        map (\<lambda>x. if s_id x = s_id st
                  then x\<lparr>s_phone := or_else (r_phone r) (s_phone st) Some\<rparr> else x) (students db)"
    by (auto simp: commit_def sequelize_transaction_def)
  from assms(2) em have eos: "entry_of_store L db ?k ex"
    by (simp add: email_entry_of_store_def)
  from eos obtain a where a: "a < length (users db)"
    and ida: "u_id (users db ! a) = u_id (e_user ex)"
    and ema: "toLowerCase L (u_email (users db ! a)) = ?k"
    by (auto simp: entry_of_store_def list_ex_iff in_set_conv_nth)
  from eos st obtain b where b: "b < length (students db)"
    and idb: "s_id (students db ! b) = s_id st"
    and owb: "s_user_id (students db ! b) = u_id (e_user ex)"
    by (auto simp: entry_of_store_def list_ex_iff in_set_conv_nth)
  have users_part: "users (commit db t) ! i = (users db ! i)\<lparr>u_name := u_name (users (commit db t) ! i)\<rparr> \<and>
        (toLowerCase L (u_email (users db ! i)) \<noteq> ?k
           \<longrightarrow> users (commit db t) ! i = users db ! i)" if i: "i < length (users db)" for i
  proof (cases "u_id (users db ! i) = u_id (e_user ex)")
    case True
    with ida have "u_id (users db ! i) = u_id (users db ! a)" by simp
    from distinct_map_nth_eq [OF _ i a this] assms(1) have "i = a"
      by (simp add: unique_ids_def)
    with ema True i show ?thesis by (simp add: us)
  next
    case False
    with i show ?thesis by (simp add: us)
  qed
  have students_part: "students (commit db t) ! j =
          (students db ! j)\<lparr>s_phone := s_phone (students (commit db t) ! j)\<rparr> \<and>
        ((\<forall>u \<in> set (users db). u_id u = s_user_id (students db ! j)
             \<longrightarrow> toLowerCase L (u_email u) \<noteq> ?k)
           \<longrightarrow> students (commit db t) ! j = students db ! j)" if j: "j < length (students db)" for j
  proof (cases "s_id (students db ! j) = s_id st")
    case True
    with idb have "s_id (students db ! j) = s_id (students db ! b)" by simp
    from distinct_map_nth_eq [OF _ j b this] assms(1) have "j = b"
      by (simp add: unique_ids_def)
    with owb ida have "u_id (users db ! a) = s_user_id (students db ! j)" by simp
    moreover have "users db ! a \<in> set (users db)" using a by simp
    ultimately have "\<not> (\<forall>u \<in> set (users db). u_id u = s_user_id (students db ! j)
             \<longrightarrow> toLowerCase L (u_email u) \<noteq> ?k)"
      using ema by blast
    with True j show ?thesis by (auto simp: ss)
  next
    case False
    with j show ?thesis by (simp add: ss)
  qed
  from users_part students_part show ?thesis
    by (simp add: us ss)
qed

theorem update_frame_witness:
  "unique_ids two_account_db \<and>
   email_entry_of_store plain_libs two_account_db john_index (toLowerCase plain_libs (r_email update_row)) \<and>
   map_option status (fst update_outcome) = Some ''updated'' \<and>
   u_email (users (commit two_account_db (snd update_outcome)) ! 0) = ''j@x.com'' \<and>
   s_student_code (students (commit two_account_db (snd update_outcome)) ! 0) = ''S1'' \<and>
   users (commit two_account_db (snd update_outcome)) ! 1 = kim \<and>
   students (commit two_account_db (snd update_outcome)) ! 1 = kim_profile"
proof -
  have u: "unique_ids two_account_db"
    and k: "email_entry_of_store plain_libs two_account_db john_index
              (toLowerCase plain_libs (r_email update_row))"
    by code_simp+
  have p: "processRecord plain_libs two_account_db update_row john_index UPDATE
       (sequelize_transaction two_account_db) = (Some (the (fst update_outcome)), snd update_outcome)"
    by code_simp
  have s: "status (the (fst update_outcome)) = ''updated''"
    and s': "map_option status (fst update_outcome) = Some ''updated''"
    by code_simp+
  have l: "(0::nat) < length (users two_account_db)" "(1::nat) < length (users two_account_db)"
    "(0::nat) < length (students two_account_db)" "(1::nat) < length (students two_account_db)"
    and e0: "u_email (users two_account_db ! 0) = ''j@x.com''"
    and c0: "s_student_code (students two_account_db ! 0) = ''S1''"
    and e1: "toLowerCase plain_libs (u_email (users two_account_db ! 1)) \<noteq>
               toLowerCase plain_libs (r_email update_row)"
    and o1: "\<forall>u \<in> set (users two_account_db). u_id u = s_user_id (students two_account_db ! 1)
               \<longrightarrow> toLowerCase plain_libs (u_email u) \<noteq> toLowerCase plain_libs (r_email update_row)"
    and k1: "users two_account_db ! 1 = kim" "students two_account_db ! 1 = kim_profile"
    by code_simp+
  note f = update_frame [OF u k p s]
  from f l(1) have "users (commit two_account_db (snd update_outcome)) ! 0 =
      (users two_account_db ! 0)\<lparr>u_name := u_name (users (commit two_account_db (snd update_outcome)) ! 0)\<rparr>"
    by blast
  then have "u_email (users (commit two_account_db (snd update_outcome)) ! 0) =
      u_email (users two_account_db ! 0)"
    by (metis user.select_convs(2) user.surjective user.update_convs(4))
  with e0 have a: "u_email (users (commit two_account_db (snd update_outcome)) ! 0) = ''j@x.com''"
    by simp
  from f l(3) have "students (commit two_account_db (snd update_outcome)) ! 0 =
      (students two_account_db ! 0)\<lparr>s_phone := s_phone (students (commit two_account_db (snd update_outcome)) ! 0)\<rparr>"
    by blast
  then have "s_student_code (students (commit two_account_db (snd update_outcome)) ! 0) =
      s_student_code (students two_account_db ! 0)"
    by (metis student.select_convs(3) student.surjective student.update_convs(4))
  with c0 have b: "s_student_code (students (commit two_account_db (snd update_outcome)) ! 0) = ''S1''"
    by simp
  from f l(2) e1 k1 have c: "users (commit two_account_db (snd update_outcome)) ! 1 = kim"
    by metis
  from f l(4) o1 k1 have d: "students (commit two_account_db (snd update_outcome)) ! 1 = kim_profile"
    by metis
  from u k s' a b c d show ?thesis by blast
qed

text \<open>
  C3. The store has John's account \<open>j@x.com\<close> with the profile of code \<open>S1\<close>. The row
  (Jane, \<open>j@x.com\<close>, \<open>S2\<close>) is processed with strategy \<open>update\<close> and the index that
  holds John's account and profile under \<open>j@x.com\<close>. The update branch asks only
  whether the email is in the index and its entry has a profile; the row's code is not
  compared with the profile's. The row is reported \<open>updated\<close>, the account's name
  becomes Jane, and the profile keeps the code \<open>S1\<close>.
\<close>

theorem update_with_other_code:
  "emailMap john_email_index (toLowerCase plain_libs (r_email mismatch_row)) = Some john_entry \<and>
   e_user john_entry = john \<and> e_student john_entry = Some john_profile \<and>
   s_student_code john_profile = ''S1'' \<and> r_student_code mismatch_row = ''S2'' \<and>
   users john_db = [john] \<and> students john_db = [john_profile] \<and>
   map_option status (fst mismatch_outcome) = Some ''updated'' \<and>
   map_option message (fst mismatch_outcome) = Some ''Student updated successfully'' \<and>
   users (commit john_db (snd mismatch_outcome)) = [john\<lparr>u_name := ''Jane''\<rparr>] \<and>
   students (commit john_db (snd mismatch_outcome)) = [john_profile]"
  by code_simp

section \<open>A row that fails\<close>




end
